theory Spec2Isabelle
  imports Complex_Main
begin

section \<open>JavaScript numbers and values\<close>

text \<open>
  A JavaScript number is a finite value, one of the two infinities, or NaN; a finite value
  is carried as the real it denotes, and the sign of zero is not modelled. Arithmetic comes
  twice. \<open>js_mul\<close> and \<open>js_div\<close> compute the exact product and quotient: they serve the
  properties of sign, order, defaults and classification. \<open>mul64\<close> and \<open>div64\<close> round each
  result to the nearest IEEE-754 double, as the engine does: the value formulas are stated
  about them. An argument of the conversion functions is a number, a string, or
  \<open>undefined\<close> (the argument was omitted).
\<close>

datatype jsnum = Fin real | PosInf | NegInf | NaN

datatype jsval = JNum jsnum | JStr string | JUndefined

datatype jserror = ReferenceError string

fun isNegative :: "jsnum \<Rightarrow> bool" where
  "isNegative (Fin a) = (a < 0)"
| "isNegative NegInf = True"
| "isNegative _ = False"

text \<open>The operator \<open>*\<close>: NaN is contagious, and infinity times zero is NaN.\<close>

fun js_mul :: "jsnum \<Rightarrow> jsnum \<Rightarrow> jsnum" where
  "js_mul (Fin a) (Fin b) = Fin (a * b)"
| "js_mul NaN _ = NaN"
| "js_mul _ NaN = NaN"
| "js_mul x y =
     (if x = Fin 0 \<or> y = Fin 0 then NaN
      else if isNegative x = isNegative y then PosInf else NegInf)"

text \<open>The operator \<open>/\<close>. A zero divisor is read as positive zero.\<close>

fun js_div :: "jsnum \<Rightarrow> jsnum \<Rightarrow> jsnum" where
  "js_div NaN _ = NaN"
| "js_div _ NaN = NaN"
| "js_div (Fin a) (Fin b) =
     (if b = 0 then (if a = 0 then NaN else if 0 < a then PosInf else NegInf)
      else Fin (a / b))"
| "js_div (Fin a) _ = Fin 0"
| "js_div x (Fin b) = (if isNegative x = (b < 0) then PosInf else NegInf)"
| "js_div _ _ = NaN"

text \<open>\<open>Math.floor\<close>, \<open>Math.round\<close> (ties go up) and the two-argument \<open>Math.min\<close>.\<close>

fun Math_floor :: "jsnum \<Rightarrow> jsnum" where
  "Math_floor (Fin a) = Fin (of_int \<lfloor>a\<rfloor>)"
| "Math_floor x = x"

fun Math_round :: "jsnum \<Rightarrow> jsnum" where
  "Math_round (Fin a) = Fin (of_int \<lfloor>a + 1 / 2\<rfloor>)"
| "Math_round x = x"

fun Math_min :: "jsnum \<Rightarrow> jsnum \<Rightarrow> jsnum" where
  "Math_min NaN _ = NaN"
| "Math_min _ NaN = NaN"
| "Math_min NegInf _ = NegInf"
| "Math_min _ NegInf = NegInf"
| "Math_min PosInf y = y"
| "Math_min x PosInf = x"
| "Math_min (Fin a) (Fin b) = Fin (min a b)"

subsection \<open>IEEE-754 double precision\<close>

text \<open>
  \<open>binary64 x\<close> is the double nearest to the real \<open>x\<close>, ties going to the even
  significand: with \<open>2 ^ e \<le> \<bar>x\<bar> < 2 ^ (e + 1)\<close> the doubles around \<open>x\<close> are the multiples
  of \<open>2 ^ (e - 52)\<close>, the exponent being held at \<open>-1022\<close> for the subnormal range, and a
  result of magnitude \<open>2 ^ 1024\<close> overflows to an infinity. \<open>bitLength n\<close> is the number of
  binary digits of \<open>n\<close>. \<open>Math.floor\<close>, \<open>Math.round\<close> and \<open>Math.min\<close> are exact on doubles.
\<close>

fun bitLength :: "nat \<Rightarrow> nat" where
  "bitLength n = (if n = 0 then 0 else Suc (bitLength (n div 2)))"

definition pow2 :: "int \<Rightarrow> real" where
  "pow2 e = (if 0 \<le> e then 2 ^ nat e else 1 / 2 ^ nat (- e))"

definition binaryExponent :: "real \<Rightarrow> int" where
  "binaryExponent a =
     (if 1 \<le> a then int (bitLength (nat \<lfloor>a\<rfloor>)) - 1
      else (let k = int (bitLength (nat \<lfloor>1 / a\<rfloor>)) - 1
            in if a * pow2 k = 1 then - k else - k - 1))"

definition roundHalfEven :: "real \<Rightarrow> int" where
  "roundHalfEven y =
     (let f = \<lfloor>y\<rfloor>; d = y - of_int f
      in if d < 1 / 2 then f else if 1 / 2 < d then f + 1 else if even f then f else f + 1)"

definition binary64 :: "real \<Rightarrow> jsnum" where
  "binary64 x =
     (if x = 0 then Fin 0
      else (let e = max (binaryExponent \<bar>x\<bar>) (- 1022);
                q = pow2 (e - 52);
                r = of_int (roundHalfEven (x / q)) * q
            in if pow2 1024 \<le> \<bar>r\<bar> then (if 0 < x then PosInf else NegInf) else Fin r))"

definition mul64 :: "jsnum \<Rightarrow> jsnum \<Rightarrow> jsnum" where
  "mul64 x y = (case (x, y) of (Fin a, Fin b) \<Rightarrow> binary64 (a * b) | _ \<Rightarrow> js_mul x y)"

definition div64 :: "jsnum \<Rightarrow> jsnum \<Rightarrow> jsnum" where
  "div64 x y =
     (case (x, y) of
        (Fin a, Fin b) \<Rightarrow> if b = 0 then js_div x y else binary64 (a / b)
      | _ \<Rightarrow> js_div x y)"

subsection \<open>parseFloat\<close>

text \<open>
  \<open>parseFloat\<close> turns its argument into a string, skips leading white space and reads the
  longest prefix that is a decimal literal: an optional sign, then \<open>Infinity\<close> or digits
  with an optional fraction and an optional exponent. Whatever follows the literal (a
  percent sign, say) is ignored; with no literal at all the result is NaN. Strings are
  byte strings here, and the white space recognised is the ASCII part of JavaScript's.
\<close>

definition isWhiteSpace :: "char \<Rightarrow> bool" where
  "isWhiteSpace c \<longleftrightarrow> c \<in> set [CHR '' '', CHR 0x09, CHR 0x0A, CHR 0x0B, CHR 0x0C, CHR 0x0D]"

definition isDigit :: "char \<Rightarrow> bool" where
  "isDigit c \<longleftrightarrow> c \<in> set ''0123456789''"

definition digitValue :: "char \<Rightarrow> nat" where
  "digitValue c = of_char c - 48"

definition digitsValue :: "string \<Rightarrow> nat" where
  "digitsValue ds = foldl (\<lambda>n c. 10 * n + digitValue c) 0 ds"

definition exponentPart :: "string \<Rightarrow> int" where
  "exponentPart r =
     (case r of
        [] \<Rightarrow> 0
      | c # r1 \<Rightarrow>
          if c = CHR ''e'' \<or> c = CHR ''E'' then
            (let (sgn, r2) =
                   (case r1 of
                      [] \<Rightarrow> (1, r1)
                    | d # r' \<Rightarrow>
                        if d = CHR ''-'' then (- 1, r')
                        else if d = CHR ''+'' then (1, r') else (1, r1));
                 ds = takeWhile isDigit r2
             in if ds = [] then 0 else sgn * int (digitsValue ds))
          else 0)"

definition scale10 :: "real \<Rightarrow> int \<Rightarrow> real" where
  "scale10 m e = (if 0 \<le> e then m * 10 ^ nat e else m / 10 ^ nat (- e))"

definition parseFloatString :: "string \<Rightarrow> jsnum" where
  "parseFloatString s =
     (let t = dropWhile isWhiteSpace s;
          (neg, u) =
            (case t of
               [] \<Rightarrow> (False, t)
             | c # r \<Rightarrow>
                 if c = CHR ''-'' then (True, r)
                 else if c = CHR ''+'' then (False, r) else (False, t))
      in if take 8 u = ''Infinity'' then (if neg then NegInf else PosInf)
         else
           (let ip = takeWhile isDigit u;
                r1 = dropWhile isDigit u;
                (fp, r2) =
                  (case r1 of
                     [] \<Rightarrow> ([], r1)
                   | c # r \<Rightarrow>
                       if c = CHR ''.'' then (takeWhile isDigit r, dropWhile isDigit r)
                       else ([], r1))
            in if ip = [] \<and> fp = [] then NaN
               else
                 (let m = real (digitsValue ip) + real (digitsValue fp) / 10 ^ length fp
                  in Fin (scale10 (if neg then - m else m) (exponentPart r2)))))"

text \<open>
  Applied to \<open>undefined\<close>, \<open>parseFloat\<close> reads the string \<open>undefined\<close>. Applied to a number
  it reads the number's own decimal form back; no function below does that, since each one
  tests \<open>typeof\<close> first.
\<close>

fun parseFloat :: "jsval \<Rightarrow> jsnum" where
  "parseFloat (JStr s) = parseFloatString s"
| "parseFloat JUndefined = parseFloatString ''undefined''"
| "parseFloat (JNum n) = n"

text \<open>
  \<open>parseFloatString\<close> yields the exact decimal value of the literal; the engine returns the
  double nearest to it, which is an infinity for a literal such as \<open>1e400\<close>.
\<close>

definition parseFloat64 :: "jsval \<Rightarrow> jsnum" where
  "parseFloat64 v =
     (case v of
        JNum n \<Rightarrow> n
      | _ \<Rightarrow> (case parseFloat v of Fin x \<Rightarrow> binary64 x | y \<Rightarrow> y))"

section \<open>The host: react-native\<close>

text \<open>
  What the library reads from react-native: the window size (\<open>Dimensions.get('window')\<close>,
  \<open>useWindowDimensions()\<close>), the pixel density (\<open>PixelRatio.get()\<close>) and \<open>Platform.OS\<close>.
\<close>

record host =
  windowWidth :: real
  windowHeight :: real
  pixelRatio :: real
  platformOS :: string

text \<open>
  Modelled from the spec: \<open>PixelRatio.roundToNearestPixel\<close> belongs to react-native, not to
  this repository. It snaps a layout size to the nearest value that is a whole number of
  physical pixels at the device's pixel density, which is plain rounding at density 1.
\<close>

definition roundToNearestPixel :: "host \<Rightarrow> jsnum \<Rightarrow> jsnum" where
  "roundToNearestPixel h layoutSize =
     (let ratio = Fin (pixelRatio h)
      in js_div (Math_round (js_mul layoutSize ratio)) ratio)"

text \<open>The same in double precision: the product and the quotient are rounded.\<close>

definition roundToNearestPixel64 :: "host \<Rightarrow> jsnum \<Rightarrow> jsnum" where
  "roundToNearestPixel64 h layoutSize =
     (let ratio = Fin (pixelRatio h)
      in div64 (Math_round (mul64 layoutSize ratio)) ratio)"

section \<open>constants.js\<close>

record device =
  width :: real
  height :: real

definition baseDevice :: device where
  "baseDevice = \<lparr>width = 375, height = 812\<rparr>"

definition baseFontSize :: real where
  "baseFontSize = 16"

definition maxFontScaleFactor :: real where
  "maxFontScaleFactor = 2"

text \<open>
  The breakpoint table is an object whose keys are enumerated in the order they are
  written; each value is the array \<open>[low, high]\<close>.
\<close>

definition breakpoints :: "(string \<times> real \<times> real) list" where
  "breakpoints =
     [(''group1'', 0, 399),
      (''group2'', 400, 599),
      (''group3'', 600, 767),
      (''group4'', 768, 1007),
      (''group5'', 1008, 1279),
      (''group6'', 1280, 8192)]"

section \<open>useResponsiveScreen.js\<close>

text \<open>
  \<open>useResponsive\<close> below computes in exact arithmetic, \<open>useResponsive64\<close> after it in
  double precision. The orientation flags, the platform flags and the breakpoint group
  involve no arithmetic and are the same in both.

  The loop of \<open>getBreakpointGroup\<close>: \<open>for (let group in breakpoints)\<close> returns the first
  group whose bounds contain the width. When the loop ends without a match the function
  returns nothing, that is \<open>undefined\<close>: \<open>None\<close> here.
\<close>

fun getBreakpointGroup :: "real \<Rightarrow> (string \<times> real \<times> real) list \<Rightarrow> string option" where
  "getBreakpointGroup w [] = None"
| "getBreakpointGroup w ((groupName, low, high) # rest) =
     (if w \<ge> low \<and> w \<le> high then Some groupName else getBreakpointGroup w rest)"

record responsive =
  isLandscape :: bool
  isPortrait :: bool
  wp :: "jsval \<Rightarrow> jsnum"
  hp :: "jsval \<Rightarrow> jsnum"
  vw :: "jsval \<Rightarrow> jsnum"
  vh :: "jsval \<Rightarrow> jsnum"
  rem :: "jsval \<Rightarrow> jsnum"
  rf :: "jsval \<Rightarrow> jsnum"
  isIOS :: bool
  isAndroid :: bool
  breakpointGroup :: "string option"

definition useResponsive :: "host \<Rightarrow> responsive" where
  "useResponsive h =
     (let width = windowWidth h;
          height = windowHeight h;
          isLandscape = (width > height);
          isPortrait = (width < height);
          breakpointGroup = getBreakpointGroup width breakpoints;
          wp = (\<lambda>widthPercent.
            let elementWidth =
                  (case widthPercent of JNum n \<Rightarrow> n | _ \<Rightarrow> parseFloat widthPercent)
            in roundToNearestPixel h (js_div (js_mul (Fin width) elementWidth) (Fin 100)));
          hp = (\<lambda>heightPercent.
            let elementHeight =
                  (case heightPercent of JNum n \<Rightarrow> n | _ \<Rightarrow> parseFloat heightPercent)
            in roundToNearestPixel h (js_div (js_mul (Fin height) elementHeight) (Fin 100)));
          vw = (\<lambda>widthPercent.
            let elementWidth =
                  (case widthPercent of JNum n \<Rightarrow> n | _ \<Rightarrow> parseFloat widthPercent)
            in Math_floor (js_mul (Fin (width / 100)) elementWidth));
          vh = (\<lambda>heightPercent.
            let elementHeight =
                  (case heightPercent of JNum n \<Rightarrow> n | _ \<Rightarrow> parseFloat heightPercent)
            in Math_floor (js_mul (Fin (height / 100)) elementHeight));
          base = (if isLandscape then height else width);
          rem = (\<lambda>sizeArg.
            let size = (case sizeArg of JUndefined \<Rightarrow> JNum (Fin 0) | _ \<Rightarrow> sizeArg);
                multiplier = (if max height width < device.height baseDevice then 9 / 10 else 1);
                elementSize = (case size of JNum n \<Rightarrow> n | _ \<Rightarrow> parseFloat size)
            in Math_floor
                 (js_mul (js_mul (Fin (base / device.width baseDevice)) elementSize)
                    (Fin multiplier)));
          rf = (\<lambda>sizeArg.
            let size = (case sizeArg of JUndefined \<Rightarrow> JNum (Fin 0) | _ \<Rightarrow> sizeArg);
                elementSize = (case size of JNum n \<Rightarrow> n | _ \<Rightarrow> parseFloat size);
                scaledFontSize = Math_min (Fin (baseFontSize * maxFontScaleFactor)) elementSize
            in scaledFontSize);
          isIOS = (platformOS h = ''ios'');
          isAndroid = (platformOS h = ''android'')
      in \<lparr>isLandscape = isLandscape,
          isPortrait = isPortrait,
          wp = wp,
          hp = hp,
          vw = vw,
          vh = vh,
          rem = rem,
          rf = rf,
          isIOS = isIOS,
          isAndroid = isAndroid,
          breakpointGroup = breakpointGroup\<rparr>)"

subsection \<open>The hook in double precision\<close>

text \<open>
  The same function with every product and quotient rounded to a double, the literal
  \<open>0.9\<close> read as the double nearest to nine tenths, and strings parsed to doubles. The
  window size is taken to be a pair of doubles, as the host reports it.
\<close>

definition useResponsive64 :: "host \<Rightarrow> responsive" where
  "useResponsive64 h =
     (let width = windowWidth h;
          height = windowHeight h;
          isLandscape = (width > height);
          isPortrait = (width < height);
          breakpointGroup = getBreakpointGroup width breakpoints;
          wp = (\<lambda>widthPercent.
            let elementWidth =
                  (case widthPercent of JNum n \<Rightarrow> n | _ \<Rightarrow> parseFloat64 widthPercent)
            in roundToNearestPixel64 h (div64 (mul64 (Fin width) elementWidth) (Fin 100)));
          hp = (\<lambda>heightPercent.
            let elementHeight =
                  (case heightPercent of JNum n \<Rightarrow> n | _ \<Rightarrow> parseFloat64 heightPercent)
            in roundToNearestPixel64 h (div64 (mul64 (Fin height) elementHeight) (Fin 100)));
          vw = (\<lambda>widthPercent.
            let elementWidth =
                  (case widthPercent of JNum n \<Rightarrow> n | _ \<Rightarrow> parseFloat64 widthPercent)
            in Math_floor (mul64 (div64 (Fin width) (Fin 100)) elementWidth));
          vh = (\<lambda>heightPercent.
            let elementHeight =
                  (case heightPercent of JNum n \<Rightarrow> n | _ \<Rightarrow> parseFloat64 heightPercent)
            in Math_floor (mul64 (div64 (Fin height) (Fin 100)) elementHeight));
          base = (if isLandscape then height else width);
          rem = (\<lambda>sizeArg.
            let size = (case sizeArg of JUndefined \<Rightarrow> JNum (Fin 0) | _ \<Rightarrow> sizeArg);
                multiplier =
                  (if max height width < device.height baseDevice then binary64 (9 / 10)
                   else Fin 1);
                elementSize = (case size of JNum n \<Rightarrow> n | _ \<Rightarrow> parseFloat64 size)
            in Math_floor
                 (mul64 (mul64 (div64 (Fin base) (Fin (device.width baseDevice))) elementSize)
                    multiplier));
          rf = (\<lambda>sizeArg.
            let size = (case sizeArg of JUndefined \<Rightarrow> JNum (Fin 0) | _ \<Rightarrow> sizeArg);
                elementSize = (case size of JNum n \<Rightarrow> n | _ \<Rightarrow> parseFloat64 size);
                scaledFontSize =
                  Math_min (mul64 (Fin baseFontSize) (Fin maxFontScaleFactor)) elementSize
            in scaledFontSize);
          isIOS = (platformOS h = ''ios'');
          isAndroid = (platformOS h = ''android'')
      in \<lparr>isLandscape = isLandscape,
          isPortrait = isPortrait,
          wp = wp,
          hp = hp,
          vw = vw,
          vh = vh,
          rem = rem,
          rf = rf,
          isIOS = isIOS,
          isAndroid = isAndroid,
          breakpointGroup = breakpointGroup\<rparr>)"

section \<open>index.js\<close>

text \<open>
  The top-level bindings of the module. A \<open>let\<close> or \<open>const\<close> binding exists from the start
  of the module's evaluation but holds no value until its declaration has run: \<open>None\<close> is
  that state, and reading the binding in it throws a ReferenceError.
\<close>

record bindings =
  screenWidth :: "real option"
  screenHeight :: "real option"
  base :: "real option"
  isIOS_top :: "bool option"
  isAndroid_top :: "bool option"
  isLandscape_top :: "bool option"
  isPortrait_top :: "bool option"
  breakpointGroup_top :: "string option option"

definition uninitialised :: bindings where
  "uninitialised =
     \<lparr>screenWidth = None, screenHeight = None, base = None, isIOS_top = None,
      isAndroid_top = None, isLandscape_top = None, isPortrait_top = None,
      breakpointGroup_top = None\<rparr>"

definition readBinding :: "string \<Rightarrow> 'a option \<Rightarrow> jserror + 'a" where
  "readBinding name b = (case b of None \<Rightarrow> Inl (ReferenceError name) | Some v \<Rightarrow> Inr v)"

definition thenE :: "jserror + 'a \<Rightarrow> ('a \<Rightarrow> jserror + 'b) \<Rightarrow> jserror + 'b" where
  "thenE r k = (case r of Inl e \<Rightarrow> Inl e | Inr v \<Rightarrow> k v)"

subsection \<open>The exported functions\<close>

text \<open>
  Each function reads the module's bindings when it is called. None of them gives its
  parameter a default value.
\<close>

definition widthPercentageToDP :: "host \<Rightarrow> bindings \<Rightarrow> jsval \<Rightarrow> jserror + jsnum" where
  "widthPercentageToDP h s widthPercent =
     (let elemWidth = (case widthPercent of JNum n \<Rightarrow> n | _ \<Rightarrow> parseFloat widthPercent)
      in thenE (readBinding ''screenWidth'' (screenWidth s)) (\<lambda>w.
           Inr (roundToNearestPixel h (js_div (js_mul (Fin w) elemWidth) (Fin 100)))))"

definition heightPercentageToDP :: "host \<Rightarrow> bindings \<Rightarrow> jsval \<Rightarrow> jserror + jsnum" where
  "heightPercentageToDP h s heightPercent =
     (let elemHeight = (case heightPercent of JNum n \<Rightarrow> n | _ \<Rightarrow> parseFloat heightPercent)
      in thenE (readBinding ''screenHeight'' (screenHeight s)) (\<lambda>ht.
           Inr (roundToNearestPixel h (js_div (js_mul (Fin ht) elemHeight) (Fin 100)))))"

definition viewportWidthPercentage :: "bindings \<Rightarrow> jsval \<Rightarrow> jserror + jsnum" where
  "viewportWidthPercentage s widthPercent =
     (let elemWidth = (case widthPercent of JNum n \<Rightarrow> n | _ \<Rightarrow> parseFloat widthPercent)
      in thenE (readBinding ''screenWidth'' (screenWidth s)) (\<lambda>w.
           Inr (Math_floor (js_mul (Fin (w / 100)) elemWidth))))"

definition viewportHeightPercentage :: "bindings \<Rightarrow> jsval \<Rightarrow> jserror + jsnum" where
  "viewportHeightPercentage s heightPercent =
     (let elemHeight = (case heightPercent of JNum n \<Rightarrow> n | _ \<Rightarrow> parseFloat heightPercent)
      in thenE (readBinding ''screenHeight'' (screenHeight s)) (\<lambda>ht.
           Inr (Math_floor (js_mul (Fin (ht / 100)) elemHeight))))"

definition remUnit :: "bindings \<Rightarrow> jsval \<Rightarrow> jserror + jsnum" where
  "remUnit s sizeArg =
     (let elemSize = (case sizeArg of JNum n \<Rightarrow> n | _ \<Rightarrow> parseFloat sizeArg)
      in thenE (readBinding ''screenHeight'' (screenHeight s)) (\<lambda>ht.
         thenE (readBinding ''screenWidth'' (screenWidth s)) (\<lambda>w.
           let multiplier = (if max ht w < height baseDevice then 9 / 10 else 1)
           in thenE (readBinding ''base'' (base s)) (\<lambda>b.
                Inr (Math_floor
                       (js_mul (js_mul (Fin (b / width baseDevice)) elemSize)
                          (Fin multiplier)))))))"

definition responsiveFont :: "jsval \<Rightarrow> jsnum" where
  "responsiveFont sizeArg =
     (let elemSize = (case sizeArg of JNum n \<Rightarrow> n | _ \<Rightarrow> parseFloat sizeArg);
          scaledFontSize = Math_min (Fin (baseFontSize * maxFontScaleFactor)) elemSize
      in scaledFontSize)"

definition getBreakpointGroup_top :: "bindings \<Rightarrow> jserror + string option" where
  "getBreakpointGroup_top s =
     thenE (readBinding ''screenWidth'' (screenWidth s)) (\<lambda>w.
       Inr (getBreakpointGroup w breakpoints))"

subsection \<open>Evaluation of the module\<close>

text \<open>
  The declarations of the module body, each a step on the bindings, in the order in which
  they are written. The arrow functions are the definitions above: declaring one of them
  reads no binding.
\<close>

definition init_screenWidth :: "host \<Rightarrow> bindings \<Rightarrow> jserror + bindings" where
  "init_screenWidth h s = Inr (s\<lparr>screenWidth := Some (windowWidth h)\<rparr>)"

definition init_screenHeight :: "host \<Rightarrow> bindings \<Rightarrow> jserror + bindings" where
  "init_screenHeight h s = Inr (s\<lparr>screenHeight := Some (windowHeight h)\<rparr>)"

definition init_base :: "bindings \<Rightarrow> jserror + bindings" where
  "init_base s =
     thenE (readBinding ''isLandscape'' (isLandscape_top s)) (\<lambda>l.
     thenE (if l then readBinding ''screenHeight'' (screenHeight s)
            else readBinding ''screenWidth'' (screenWidth s)) (\<lambda>b.
       Inr (s\<lparr>base := Some b\<rparr>)))"

definition init_isIOS :: "host \<Rightarrow> bindings \<Rightarrow> jserror + bindings" where
  "init_isIOS h s = Inr (s\<lparr>isIOS_top := Some (platformOS h = ''ios'')\<rparr>)"

definition init_isAndroid :: "host \<Rightarrow> bindings \<Rightarrow> jserror + bindings" where
  "init_isAndroid h s = Inr (s\<lparr>isAndroid_top := Some (platformOS h = ''android'')\<rparr>)"

definition init_isLandscape :: "bindings \<Rightarrow> jserror + bindings" where
  "init_isLandscape s =
     thenE (readBinding ''screenWidth'' (screenWidth s)) (\<lambda>w.
     thenE (readBinding ''screenHeight'' (screenHeight s)) (\<lambda>ht.
       Inr (s\<lparr>isLandscape_top := Some (w > ht)\<rparr>)))"

definition init_isPortrait :: "bindings \<Rightarrow> jserror + bindings" where
  "init_isPortrait s =
     thenE (readBinding ''screenWidth'' (screenWidth s)) (\<lambda>w.
     thenE (readBinding ''screenHeight'' (screenHeight s)) (\<lambda>ht.
       Inr (s\<lparr>isPortrait_top := Some (w < ht)\<rparr>)))"

definition init_breakpointGroup :: "bindings \<Rightarrow> jserror + bindings" where
  "init_breakpointGroup s =
     thenE (getBreakpointGroup_top s) (\<lambda>g. Inr (s\<lparr>breakpointGroup_top := Some g\<rparr>))"

definition index_module :: "host \<Rightarrow> jserror + bindings" where
  "index_module h =
     foldl thenE (Inr uninitialised)
       [init_screenWidth h, init_screenHeight h, init_base, init_isIOS h, init_isAndroid h,
        init_isLandscape, init_isPortrait, init_breakpointGroup]"

section \<open>Vocabulary of the properties\<close>


text \<open>
  \<open>numeric_input64 v p\<close>: the same for the double \<open>p\<close>, a string being read to the
  nearest double.
\<close>

fun numeric_input64 :: "jsval \<Rightarrow> real \<Rightarrow> bool" where
  "numeric_input64 (JNum (Fin a)) p = (a = p)"
| "numeric_input64 (JStr s) p = (parseFloat64 (JStr s) = Fin p)"
| "numeric_input64 _ p = False"

text \<open>The comparison \<open>\<le>\<close> of two numbers (false when either is NaN).\<close>

fun js_le :: "jsnum \<Rightarrow> jsnum \<Rightarrow> bool" where
  "js_le NaN _ = False"
| "js_le _ NaN = False"
| "js_le NegInf _ = True"
| "js_le _ PosInf = True"
| "js_le (Fin a) (Fin b) = (a \<le> b)"
| "js_le _ _ = False"

definition nonNegative :: "jsnum \<Rightarrow> bool" where
  "nonNegative x = js_le (Fin 0) x"

section \<open>Auxiliary facts\<close>

lemmas parse_defs = parseFloatString_def isWhiteSpace_def isDigit_def digitsValue_def
  digitValue_def exponentPart_def scale10_def















lemma getBreakpointGroup_None_iff:
  "getBreakpointGroup w bps = None \<longleftrightarrow> (\<forall>(g, lo, hi) \<in> set bps. \<not> (lo \<le> w \<and> w \<le> hi))"
  by (induction w bps rule: getBreakpointGroup.induct) auto

lemma getBreakpointGroup_Some:
  "getBreakpointGroup w bps = Some g \<Longrightarrow> \<exists>lo hi. (g, lo, hi) \<in> set bps \<and> lo \<le> w \<and> w \<le> hi"
  by (induction w bps rule: getBreakpointGroup.induct) (auto split: if_splits)


subsection \<open>Double precision\<close>

text \<open>
  Rules that evaluate \<open>binary64\<close> on numerals, and the sign of its result: rounding a
  non-negative real gives a non-negative double or the positive infinity.
\<close>

declare bitLength.simps [simp del]

lemma bitLength_0: "bitLength 0 = 0"
  by (simp add: bitLength.simps)

lemma bitLength_1: "bitLength 1 = 1"
  by (simp add: bitLength.simps)

lemma bitLength_Suc_0: "bitLength (Suc 0) = 1"
  by (simp add: bitLength.simps)

lemma bitLength_numeral: "bitLength (numeral k) = Suc (bitLength (numeral k div 2))"
  by (subst bitLength.simps) simp

lemmas double_defs = binary64_def binaryExponent_def pow2_def roundHalfEven_def Let_def
  mul64_def div64_def bitLength_0 bitLength_1 bitLength_Suc_0 bitLength_numeral

lemma nine_tenths: "binary64 (9 / 10) = Fin (8106479329266893 / 9007199254740992)"
  by (simp add: double_defs)

text \<open>
  Known doubles: one tenth and one third, a power of two and a whole number left as they
  are, overflow, and the bottom of the subnormal range (half of the least double is a tie
  and goes to zero).
\<close>

lemma binary64_examples:
  "binary64 (1 / 10) = Fin (3602879701896397 / 36028797018963968)"
  "binary64 (1 / 3) = Fin (6004799503160661 / 18014398509481984)"
  "binary64 (1 / 4) = Fin (1 / 4)"
  "binary64 (- 10) = Fin (- 10)"
  "binary64 (10 ^ 400) = PosInf"
  "binary64 (1 / 2 ^ 1075) = Fin 0"
  "binary64 (3 / 2 ^ 1075) = Fin (1 / 2 ^ 1073)"
  by (simp_all add: double_defs)

lemma fifty_percent: "numeric_input64 (JStr ''50%'') 50"
  by (simp add: parseFloat64_def parse_defs double_defs)

lemma double_values:
  "Math_floor (mul64 (div64 (Fin 375) (Fin 100)) (Fin 50)) = Fin 187"
  "Math_floor (mul64 (div64 (Fin 812) (Fin 100)) (Fin 50)) = Fin 405"
  "Math_floor (mul64 (mul64 (div64 (Fin 375) (Fin 375)) (Fin 16)) (Fin 1)) = Fin 16"
  "mul64 (Fin 16) (Fin 2) = Fin 32"
  by (simp_all add: double_defs)

lemma pow2_pos: "0 < pow2 e"
  by (simp add: pow2_def)

lemma roundHalfEven_nonneg: "0 \<le> y \<Longrightarrow> 0 \<le> roundHalfEven y"
  by (simp add: roundHalfEven_def Let_def)

lemma binary64_nonneg:
  assumes "0 \<le> x"
  shows "nonNegative (binary64 x)"
proof (cases "x = 0")
  case True
  then show ?thesis by (simp add: binary64_def nonNegative_def)
next
  case False
  with assms have pos: "0 < x" by simp
  define q where "q = pow2 (max (binaryExponent \<bar>x\<bar>) (- 1022) - 52)"
  have q: "0 < q" unfolding q_def by (rule pow2_pos)
  with pos have "0 \<le> x / q" by simp
  then have "0 \<le> roundHalfEven (x / q)" by (rule roundHalfEven_nonneg)
  with q have "0 \<le> real_of_int (roundHalfEven (x / q)) * q" by simp
  with pos False show ?thesis
    by (simp add: binary64_def Let_def nonNegative_def q_def)
qed

lemma mul64_nonneg:
  assumes "nonNegative x" and "0 < b"
  shows "nonNegative (mul64 x (Fin b))"
proof (cases x)
  case (Fin a)
  with assms have "0 \<le> a * b" by (simp add: nonNegative_def)
  then have "nonNegative (binary64 (a * b))" by (rule binary64_nonneg)
  with Fin show ?thesis by (simp add: mul64_def)
qed (use assms in \<open>simp_all add: mul64_def nonNegative_def\<close>)

lemma div64_nonneg:
  assumes "nonNegative x" and "0 < b"
  shows "nonNegative (div64 x (Fin b))"
proof (cases x)
  case (Fin a)
  with assms have "0 \<le> a / b" by (simp add: nonNegative_def)
  then have "nonNegative (binary64 (a / b))" by (rule binary64_nonneg)
  with Fin assms(2) show ?thesis by (simp add: div64_def)
qed (use assms in \<open>simp_all add: div64_def nonNegative_def\<close>)

lemma Math_round_nonneg: "nonNegative x \<Longrightarrow> nonNegative (Math_round x)"
  by (cases x) (simp_all add: nonNegative_def)

lemma roundToNearestPixel64_nonneg:
  assumes "nonNegative x" and "0 < pixelRatio h"
  shows "nonNegative (roundToNearestPixel64 h x)"
  unfolding roundToNearestPixel64_def Let_def
  by (intro div64_nonneg Math_round_nonneg mul64_nonneg assms)

lemma percent_of_axis_nonneg:
  assumes "0 \<le> a" and "0 \<le> p"
  shows "nonNegative (div64 (mul64 (Fin a) (Fin p)) (Fin 100))"
proof -
  from assms have "0 \<le> a * p" by simp
  then have "nonNegative (binary64 (a * p))" by (rule binary64_nonneg)
  then have "nonNegative (mul64 (Fin a) (Fin p))" by (simp add: mul64_def)
  then show ?thesis by (rule div64_nonneg) simp
qed

lemma numeric_input64_value:
  "numeric_input64 v p \<Longrightarrow> (case v of JNum n \<Rightarrow> n | _ \<Rightarrow> parseFloat64 v) = Fin p"
  by (induction v p rule: numeric_input64.induct) auto

lemma wp64_numeric:
  "numeric_input64 v p \<Longrightarrow>
   wp (useResponsive64 h) v =
     roundToNearestPixel64 h (div64 (mul64 (Fin (windowWidth h)) (Fin p)) (Fin 100))"
  by (simp add: useResponsive64_def Let_def numeric_input64_value)

lemma hp64_numeric:
  "numeric_input64 v p \<Longrightarrow>
   hp (useResponsive64 h) v =
     roundToNearestPixel64 h (div64 (mul64 (Fin (windowHeight h)) (Fin p)) (Fin 100))"
  by (simp add: useResponsive64_def Let_def numeric_input64_value)

lemma vw64_numeric:
  "numeric_input64 v p \<Longrightarrow>
   vw (useResponsive64 h) v = Math_floor (mul64 (div64 (Fin (windowWidth h)) (Fin 100)) (Fin p))"
  by (simp add: useResponsive64_def Let_def numeric_input64_value)

lemma vh64_numeric:
  "numeric_input64 v p \<Longrightarrow>
   vh (useResponsive64 h) v = Math_floor (mul64 (div64 (Fin (windowHeight h)) (Fin 100)) (Fin p))"
  by (simp add: useResponsive64_def Let_def numeric_input64_value)




text \<open>
  Values of the double-precision hook where rounding decides the result: half of 812 is
  405.99999999999994 before the floor, 435 / 375 * 25 is 28.999999999999996, and 4.6 percent
  of 375 at density 2 is 34.49999999999999 pixels before rounding.
\<close>

lemma vw_vh_double_examples:
  "vh (useResponsive64 \<lparr>windowWidth = 375, windowHeight = 812, pixelRatio = 3, platformOS = ''ios''\<rparr>)
     (JNum (Fin 100)) = Fin 811"
  "vw (useResponsive64 \<lparr>windowWidth = 414, windowHeight = 896, pixelRatio = 2, platformOS = ''ios''\<rparr>)
     (JNum (Fin 50)) = Fin 206"
  by (simp_all add: useResponsive64_def double_defs)

lemma rem_double_examples:
  "rem (useResponsive64 \<lparr>windowWidth = 435, windowHeight = 900, pixelRatio = 3, platformOS = ''ios''\<rparr>)
     (JNum (Fin 25)) = Fin 28"
  "rem (useResponsive64 \<lparr>windowWidth = 500, windowHeight = 700, pixelRatio = 3, platformOS = ''ios''\<rparr>)
     (JNum (Fin 25)) = Fin 29"
  "rem (useResponsive64 \<lparr>windowWidth = 320, windowHeight = 568, pixelRatio = 2, platformOS = ''ios''\<rparr>)
     (JNum (Fin 16)) = Fin 12"
  by (simp_all add: useResponsive64_def baseDevice_def double_defs)

lemma wp_double_examples:
  "wp (useResponsive64 \<lparr>windowWidth = 375, windowHeight = 812, pixelRatio = 2, platformOS = ''ios''\<rparr>)
     (JStr ''4.6%'') = Fin 17"
  "wp (useResponsive64 \<lparr>windowWidth = 375, windowHeight = 812, pixelRatio = 3, platformOS = ''ios''\<rparr>)
     (JStr ''50%'') = Fin (6602933828670805 / 35184372088832)"
  "hp (useResponsive64 \<lparr>windowWidth = 375, windowHeight = 812, pixelRatio = 3, platformOS = ''ios''\<rparr>)
     (JStr ''50%'') = Fin 406"
  by (simp_all add: useResponsive64_def roundToNearestPixel64_def parseFloat64_def parse_defs
      double_defs)

lemma parseFloat64_overflow: "parseFloat64 (JStr ''1e400'') = PosInf"
  by (simp add: parseFloat64_def parse_defs double_defs)

subsection \<open>The two hooks where no rounding occurs\<close>

text \<open>
  The flags and the breakpoint group of the double-precision hook are those of the exact
  one, and so is \<open>rf\<close> on a number or on no argument: \<open>16 * 2\<close> is exact. \<open>rem\<close> without
  an argument is 0 in double precision too, for a window whose \<open>base / 375\<close> is finite.
\<close>

lemma useResponsive64_flags:
  "isLandscape (useResponsive64 h) = isLandscape (useResponsive h) \<and>
   isPortrait (useResponsive64 h) = isPortrait (useResponsive h) \<and>
   isIOS (useResponsive64 h) = isIOS (useResponsive h) \<and>
   isAndroid (useResponsive64 h) = isAndroid (useResponsive h) \<and>
   breakpointGroup (useResponsive64 h) = breakpointGroup (useResponsive h)"
  by (simp add: useResponsive64_def useResponsive_def Let_def)

lemma useResponsive64_rf:
  "rf (useResponsive64 h) (JNum n) = rf (useResponsive h) (JNum n) \<and>
   rf (useResponsive64 h) JUndefined = rf (useResponsive h) JUndefined"
  by (simp add: useResponsive64_def useResponsive_def Let_def baseFontSize_def
      maxFontScaleFactor_def double_values)


lemma mul64_zero: "mul64 (Fin a) (Fin 0) = Fin 0" "mul64 (Fin 0) (Fin a) = Fin 0"
  by (simp_all add: mul64_def binary64_def)

lemma useResponsive64_rem_default:
  assumes "div64 (Fin (if windowWidth h > windowHeight h then windowHeight h else windowWidth h))
             (Fin (width baseDevice)) = Fin x"
  shows "rem (useResponsive64 h) JUndefined = Fin 0"
  using assms
  by (simp add: useResponsive64_def Let_def mul64_zero nine_tenths)

lemma useResponsive64_rem_default_phone:
  "rem (useResponsive64 \<lparr>windowWidth = 375, windowHeight = 812, pixelRatio = d, platformOS = os\<rparr>)
     JUndefined = Fin 0"
  by (simp add: useResponsive64_def baseDevice_def double_defs)

subsection \<open>The breakpoint table\<close>

text \<open>
  No width lies in two intervals of the table, and every whole width from 0 to 8192 lies
  in one of them.
\<close>

lemma breakpointGroup_scan:
  "breakpointGroup (useResponsive h) = getBreakpointGroup (windowWidth h) breakpoints"
  by (simp add: useResponsive_def Let_def)

lemma breakpoints_disjoint:
  "(g, lo, hi) \<in> set breakpoints \<Longrightarrow> (g', lo', hi') \<in> set breakpoints \<Longrightarrow>
   lo \<le> w \<Longrightarrow> w \<le> hi \<Longrightarrow> lo' \<le> w \<Longrightarrow> w \<le> hi' \<Longrightarrow> g = g' \<and> lo = lo' \<and> hi = hi'"
  by (auto simp: breakpoints_def)

lemma breakpoints_integer_cover:
  fixes n :: int
  assumes "0 \<le> n" "n \<le> 8192"
  shows "\<exists>g lo hi. getBreakpointGroup (of_int n) breakpoints = Some g \<and>
           (g, lo, hi) \<in> set breakpoints \<and> lo \<le> of_int n \<and> of_int n \<le> hi"
proof -
  have "getBreakpointGroup (of_int n) breakpoints \<noteq> None"
  proof -
    have "n \<le> 399 \<or> (400 \<le> n \<and> n \<le> 599) \<or> (600 \<le> n \<and> n \<le> 767) \<or> (768 \<le> n \<and> n \<le> 1007)
        \<or> (1008 \<le> n \<and> n \<le> 1279) \<or> 1280 \<le> n" by arith
    with assms show ?thesis
      by (auto simp: getBreakpointGroup_None_iff breakpoints_def)
  qed
  then obtain g where "getBreakpointGroup (of_int n) breakpoints = Some g" by auto
  with getBreakpointGroup_Some[OF this] show ?thesis by blast
qed

subsection \<open>The functions of index.js against those of the hook\<close>

text \<open>
  In a module scope whose bindings hold the window size, each exported conversion
  computes what its counterpart in the hook computes. The font functions differ from the
  hook's only when the argument is omitted: they have no default and return NaN.
\<close>

lemma widthPercentageToDP_wp:
  "screenWidth s = Some (windowWidth h) \<Longrightarrow>
   widthPercentageToDP h s v = Inr (wp (useResponsive h) v)"
  by (simp add: widthPercentageToDP_def useResponsive_def Let_def thenE_def readBinding_def)

lemma heightPercentageToDP_hp:
  "screenHeight s = Some (windowHeight h) \<Longrightarrow>
   heightPercentageToDP h s v = Inr (hp (useResponsive h) v)"
  by (simp add: heightPercentageToDP_def useResponsive_def Let_def thenE_def readBinding_def)

lemma viewportWidthPercentage_vw:
  "screenWidth s = Some (windowWidth h) \<Longrightarrow>
   viewportWidthPercentage s v = Inr (vw (useResponsive h) v)"
  by (simp add: viewportWidthPercentage_def useResponsive_def Let_def thenE_def readBinding_def)

lemma viewportHeightPercentage_vh:
  "screenHeight s = Some (windowHeight h) \<Longrightarrow>
   viewportHeightPercentage s v = Inr (vh (useResponsive h) v)"
  by (simp add: viewportHeightPercentage_def useResponsive_def Let_def thenE_def readBinding_def)

lemma responsiveFont_rf:
  "v \<noteq> JUndefined \<Longrightarrow> responsiveFont v = rf (useResponsive h) v"
  by (cases v) (simp_all add: responsiveFont_def useResponsive_def Let_def)

lemma remUnit_rem:
  assumes "screenWidth s = Some (windowWidth h)" and "screenHeight s = Some (windowHeight h)"
    and "base s = Some (if windowWidth h > windowHeight h then windowHeight h else windowWidth h)"
    and "v \<noteq> JUndefined"
  shows "remUnit s v = Inr (rem (useResponsive h) v)"
  using assms
  by (cases v) (simp_all add: remUnit_def useResponsive_def Let_def thenE_def readBinding_def)

lemma remUnit_omitted:
  "screenWidth s = Some w \<Longrightarrow> screenHeight s = Some ht \<Longrightarrow> base s = Some b \<Longrightarrow>
   remUnit s JUndefined = Inr NaN"
  by (simp add: remUnit_def thenE_def readBinding_def parse_defs)

lemma responsiveFont_omitted: "responsiveFont JUndefined = NaN"
  by (simp add: responsiveFont_def parse_defs)

lemma init_orientation:
  "screenWidth s = Some w \<Longrightarrow> screenHeight s = Some ht \<Longrightarrow>
   init_isLandscape s = Inr (s\<lparr>isLandscape_top := Some (w > ht)\<rparr>) \<and>
   init_isPortrait s = Inr (s\<lparr>isPortrait_top := Some (w < ht)\<rparr>)"
  by (simp add: init_isLandscape_def init_isPortrait_def thenE_def readBinding_def)

lemma getBreakpointGroup_top_scan:
  "screenWidth s = Some w \<Longrightarrow> getBreakpointGroup_top s = Inr (getBreakpointGroup w breakpoints)"
  by (simp add: getBreakpointGroup_top_def thenE_def readBinding_def)

text \<open>The two unit systems differ: half of 375 is 188 after pixel rounding and 187 floored.\<close>

lemma wp_vw_differ:
  "wp (useResponsive64 \<lparr>windowWidth = 375, windowHeight = 812, pixelRatio = 1, platformOS = os\<rparr>)
     (JNum (Fin 50)) = Fin 188 \<and>
   vw (useResponsive64 \<lparr>windowWidth = 375, windowHeight = 812, pixelRatio = 1, platformOS = os\<rparr>)
     (JNum (Fin 50)) = Fin 187"
  by (simp add: useResponsive64_def roundToNearestPixel64_def double_defs)

section \<open>The properties\<close>

text \<open>
  Claim C1 says that the breakpoint table partitions the non-negative widths and that every
  whole width from 0 to 10000 is given exactly one group. The table stops at 8192 and its
  intervals have whole-number bounds: the width 9000 is given no group, and neither is
  399.5, which lies between \<open>group1\<close> and \<open>group2\<close>.
\<close>

theorem breakpoints_leave_widths_unclassified:
  "breakpointGroup (useResponsive \<lparr>windowWidth = 9000, windowHeight = ht, pixelRatio = d, platformOS = os\<rparr>) = None \<and>
   breakpointGroup (useResponsive \<lparr>windowWidth = 799 / 2, windowHeight = ht, pixelRatio = d, platformOS = os\<rparr>) = None"
  by (simp add: breakpointGroup_scan breakpoints_def)

text \<open>
  Claim C2: evaluating the module index.js throws a ReferenceError, whatever the host
  reports. The declaration of \<open>base\<close> reads \<open>isLandscape\<close> before the declaration of
  \<open>isLandscape\<close> has run, so the evaluation never yields the module's bindings.
\<close>

theorem index_module_throws:
  "index_module h = Inl (ReferenceError ''isLandscape'') \<and> (\<forall>s. index_module h \<noteq> Inr s)"
  by (simp add: index_module_def thenE_def readBinding_def uninitialised_def
      init_screenWidth_def init_screenHeight_def init_base_def)

text \<open>
  Claim C3: for a numeric size, \<open>rem\<close> is the floor of
  \<open>base / baseDevice.width * size * multiplier\<close>, computed in double precision from left to
  right, where \<open>base\<close> is the height when the width exceeds the height and the width
  otherwise, and \<open>multiplier\<close> is 0.9 when the larger of width and height is below
  \<open>baseDevice.height\<close> and 1 otherwise. On a window of 375 by 812, \<open>rem(16)\<close> is 16.
\<close>

theorem rem_double_formula:
  "rem (useResponsive64 h) (JNum n) =
     Math_floor
       (mul64
          (mul64
             (div64 (Fin (if windowWidth h > windowHeight h then windowHeight h else windowWidth h))
                (Fin (width baseDevice)))
             n)
          (if max (windowWidth h) (windowHeight h) < height baseDevice then binary64 (9 / 10)
           else Fin 1)) \<and>
   rem (useResponsive64 \<lparr>windowWidth = 375, windowHeight = 812, pixelRatio = d, platformOS = os\<rparr>)
     (JNum (Fin 16)) = Fin 16"
  by (simp add: useResponsive64_def Let_def max.commute baseDevice_def double_values)

text \<open>
  Claim C4 says that \<open>wp\<close> and \<open>hp\<close> pixel-round the percentage of the axis and that the
  output is never negative. The second part fails: ten percent below zero of a width of
  100 is \<open>-10\<close>.
\<close>

theorem wp_negative_percent_double_counterexample:
  "\<not> nonNegative
       (wp (useResponsive64 \<lparr>windowWidth = 100, windowHeight = 200, pixelRatio = 1, platformOS = ''ios''\<rparr>)
          (JNum (Fin (- 10))))"
  by (simp add: useResponsive64_def roundToNearestPixel64_def nonNegative_def double_defs)

text \<open>
  Claim C4, amended: for a percentage given as a finite number or as a string that reads
  as one, \<open>wp(p)\<close> is \<open>round_to_nearest_pixel(width * p / 100)\<close> and \<open>hp(p)\<close> the same over
  the height, the product and the quotient being those of double precision; the formula
  is applied to every such \<open>p\<close>, negative or beyond 100 included, and the output is
  non-negative when \<open>p\<close> and the axis size are.
\<close>

theorem wp_hp_double_rounding:
  assumes "numeric_input64 v p" and "0 < pixelRatio h"
  shows "wp (useResponsive64 h) v =
           roundToNearestPixel64 h (div64 (mul64 (Fin (windowWidth h)) (Fin p)) (Fin 100)) \<and>
         hp (useResponsive64 h) v =
           roundToNearestPixel64 h (div64 (mul64 (Fin (windowHeight h)) (Fin p)) (Fin 100)) \<and>
         (0 \<le> p \<and> 0 \<le> windowWidth h \<longrightarrow> nonNegative (wp (useResponsive64 h) v)) \<and>
         (0 \<le> p \<and> 0 \<le> windowHeight h \<longrightarrow> nonNegative (hp (useResponsive64 h) v))"
proof -
  have "0 \<le> p \<and> 0 \<le> windowWidth h \<longrightarrow> nonNegative (wp (useResponsive64 h) v)"
    unfolding wp64_numeric[OF assms(1)]
    by (intro impI roundToNearestPixel64_nonneg percent_of_axis_nonneg assms(2)) simp_all
  moreover have "0 \<le> p \<and> 0 \<le> windowHeight h \<longrightarrow> nonNegative (hp (useResponsive64 h) v)"
    unfolding hp64_numeric[OF assms(1)]
    by (intro impI roundToNearestPixel64_nonneg percent_of_axis_nonneg assms(2)) simp_all
  ultimately show ?thesis
    using wp64_numeric[OF assms(1), of h] hp64_numeric[OF assms(1), of h] by blast
qed

theorem wp_hp_double_rounding_witness:
  "numeric_input64 (JStr ''50%'') 50 \<and>
   wp (useResponsive64 \<lparr>windowWidth = 375, windowHeight = 812, pixelRatio = 3, platformOS = ''ios''\<rparr>)
     (JStr ''50%'') = Fin (6602933828670805 / 35184372088832) \<and>
   nonNegative
     (hp (useResponsive64 \<lparr>windowWidth = 375, windowHeight = 812, pixelRatio = 3, platformOS = ''ios''\<rparr>)
        (JStr ''50%''))"
proof -
  let ?h = "\<lparr>windowWidth = 375, windowHeight = 812, pixelRatio = 3, platformOS = ''ios''\<rparr>"
  have d: "0 < pixelRatio ?h" by simp
  from wp_hp_double_rounding[OF fifty_percent d]
  have "0 \<le> (50::real) \<and> 0 \<le> windowHeight ?h \<longrightarrow>
        nonNegative (hp (useResponsive64 ?h) (JStr ''50%''))"
    by blast
  then have "nonNegative (hp (useResponsive64 ?h) (JStr ''50%''))" by simp
  with fifty_percent wp_double_examples(2) show ?thesis by blast
qed

text \<open>
  Claim C5: called without an argument, \<open>rem\<close> and \<open>rf\<close> take the size to be 0 and return
  0, for every width and height.
\<close>

theorem rem_rf_default:
  "rem (useResponsive h) JUndefined = Fin 0 \<and> rf (useResponsive h) JUndefined = Fin 0"
  by (simp add: useResponsive_def Let_def baseFontSize_def maxFontScaleFactor_def)

text \<open>
  Claim C6: for a width that lies in no interval of the breakpoint table, the
  classification yields no group at all, a result distinct from every group name, and not
  some default group.
\<close>

theorem getBreakpointGroup_unmatched:
  assumes "\<forall>(g, lo, hi) \<in> set breakpoints. \<not> (lo \<le> windowWidth h \<and> windowWidth h \<le> hi)"
  shows "breakpointGroup (useResponsive h) = None \<and>
         (\<forall>g. breakpointGroup (useResponsive h) \<noteq> Some g)"
  using assms by (simp add: breakpointGroup_scan getBreakpointGroup_None_iff)

theorem getBreakpointGroup_unmatched_witness:
  "breakpointGroup
     (useResponsive \<lparr>windowWidth = 10000, windowHeight = 5000, pixelRatio = 1, platformOS = ''web''\<rparr>) =
   None"
proof -
  let ?h = "\<lparr>windowWidth = 10000, windowHeight = 5000, pixelRatio = 1, platformOS = ''web''\<rparr>"
  have a: "\<forall>(g, lo, hi) \<in> set breakpoints. \<not> (lo \<le> windowWidth ?h \<and> windowWidth ?h \<le> hi)"
    by (simp add: breakpoints_def)
  from getBreakpointGroup_unmatched[OF a] show ?thesis by simp
qed

text \<open>
  Claim C7: a window wider than high is landscape and not portrait, one higher than wide is
  portrait and not landscape, and a square one is neither.
\<close>

theorem orientation_flags:
  "(windowWidth h > windowHeight h \<longrightarrow> isLandscape (useResponsive h) \<and> \<not> isPortrait (useResponsive h)) \<and>
   (windowWidth h < windowHeight h \<longrightarrow> \<not> isLandscape (useResponsive h) \<and> isPortrait (useResponsive h)) \<and>
   (windowWidth h = windowHeight h \<longrightarrow> \<not> isLandscape (useResponsive h) \<and> \<not> isPortrait (useResponsive h))"
  by (simp add: useResponsive_def Let_def)

theorem orientation_flags_witness:
  "isLandscape (useResponsive \<lparr>windowWidth = 812, windowHeight = 375, pixelRatio = 3, platformOS = ''ios''\<rparr>) \<and>
   \<not> isPortrait (useResponsive \<lparr>windowWidth = 812, windowHeight = 375, pixelRatio = 3, platformOS = ''ios''\<rparr>) \<and>
   \<not> isLandscape (useResponsive \<lparr>windowWidth = 375, windowHeight = 812, pixelRatio = 3, platformOS = ''ios''\<rparr>) \<and>
   isPortrait (useResponsive \<lparr>windowWidth = 375, windowHeight = 812, pixelRatio = 3, platformOS = ''ios''\<rparr>) \<and>
   \<not> isLandscape (useResponsive \<lparr>windowWidth = 600, windowHeight = 600, pixelRatio = 3, platformOS = ''ios''\<rparr>) \<and>
   \<not> isPortrait (useResponsive \<lparr>windowWidth = 600, windowHeight = 600, pixelRatio = 3, platformOS = ''ios''\<rparr>)"
  using orientation_flags[of "\<lparr>windowWidth = 812, windowHeight = 375, pixelRatio = 3, platformOS = ''ios''\<rparr>"]
    orientation_flags[of "\<lparr>windowWidth = 375, windowHeight = 812, pixelRatio = 3, platformOS = ''ios''\<rparr>"]
    orientation_flags[of "\<lparr>windowWidth = 600, windowHeight = 600, pixelRatio = 3, platformOS = ''ios''\<rparr>"]
  by simp

text \<open>
  Claim C8: for a numeric size, \<open>rf\<close> is the minimum of
  \<open>baseFontSize * maxFontScaleFactor\<close> and the size. It does not depend on the window,
  leaves every size at or below the bound unchanged, negative sizes included, and
  \<open>rf(40)\<close> is 32.
\<close>

theorem rf_upper_clamp:
  "rf (useResponsive h) (JNum n) = Math_min (Fin (baseFontSize * maxFontScaleFactor)) n \<and>
   rf (useResponsive h) (JNum (Fin s)) = Fin (min (baseFontSize * maxFontScaleFactor) s) \<and>
   rf (useResponsive h) v = rf (useResponsive h') v \<and>
   (s \<le> baseFontSize * maxFontScaleFactor \<longrightarrow> rf (useResponsive h) (JNum (Fin s)) = Fin s) \<and>
   baseFontSize * maxFontScaleFactor = 32 \<and>
   rf (useResponsive h) (JNum (Fin 40)) = Fin 32"
  by (simp add: useResponsive_def Let_def baseFontSize_def maxFontScaleFactor_def)

theorem rf_upper_clamp_witness:
  "- 5 \<le> baseFontSize * maxFontScaleFactor \<and>
   rf (useResponsive \<lparr>windowWidth = 375, windowHeight = 812, pixelRatio = 3, platformOS = ''ios''\<rparr>)
     (JNum (Fin (- 5))) = Fin (- 5)"
  using rf_upper_clamp[of "\<lparr>windowWidth = 375, windowHeight = 812, pixelRatio = 3, platformOS = ''ios''\<rparr>"
      NaN "- 5" JUndefined "\<lparr>windowWidth = 375, windowHeight = 812, pixelRatio = 3, platformOS = ''ios''\<rparr>"]
  by simp

text \<open>
  Claim C9: for a percentage given as a finite number or as a string that reads as one,
  \<open>vw(p)\<close> is the floor of \<open>width / 100 * p\<close> and \<open>vh(p)\<close> the floor of
  \<open>height / 100 * p\<close>, quotient and product being those of double precision; the pixel
  density plays no part; and \<open>vw(50)\<close> on a width of 375 is 187.
\<close>

theorem vw_vh_double_floor:
  assumes "numeric_input64 v p"
  shows "vw (useResponsive64 h) v =
           Math_floor (mul64 (div64 (Fin (windowWidth h)) (Fin 100)) (Fin p)) \<and>
         vh (useResponsive64 h) v =
           Math_floor (mul64 (div64 (Fin (windowHeight h)) (Fin 100)) (Fin p)) \<and>
         vw (useResponsive64 (h\<lparr>pixelRatio := d\<rparr>)) v = vw (useResponsive64 h) v \<and>
         vh (useResponsive64 (h\<lparr>pixelRatio := d\<rparr>)) v = vh (useResponsive64 h) v \<and>
         vw (useResponsive64 \<lparr>windowWidth = 375, windowHeight = ht, pixelRatio = d, platformOS = os\<rparr>)
           (JNum (Fin 50)) = Fin 187"
  using assms by (simp add: vw64_numeric vh64_numeric double_values)

theorem vw_vh_double_floor_witness:
  "numeric_input64 (JStr ''50%'') 50 \<and>
   vw (useResponsive64 \<lparr>windowWidth = 375, windowHeight = 812, pixelRatio = 3, platformOS = ''ios''\<rparr>)
     (JStr ''50%'') = Fin 187 \<and>
   vh (useResponsive64 \<lparr>windowWidth = 375, windowHeight = 812, pixelRatio = 3, platformOS = ''ios''\<rparr>)
     (JStr ''50%'') = Fin 405"
  using vw_vh_double_floor[OF fifty_percent,
      of "\<lparr>windowWidth = 375, windowHeight = 812, pixelRatio = 3, platformOS = ''ios''\<rparr>"]
    fifty_percent
  by (simp add: double_values)



end
